theory Spec2Isabelle
  imports Complex_Main "HOL-Library.List_Lexorder" "HOL-Library.Char_ord" "HOL-Library.Log_Nat"
begin

section \<open>E-commerce user behaviour dashboard: the RFM pipeline\<close>

text \<open>
  The script \<^verbatim>\<open>Ecommerce_User_Behavior_Analysis_Dashboard.py\<close> runs top to bottom:
  it loads the behaviour log, keeps the purchase events, aggregates them per user into an
  RFM table, scales the three RFM columns, clusters the users and renders tables and charts.

  Conventions of the embedding.
  \<^item> A data frame is the list of its rows, in row order.
  \<^item> The columns \<^verbatim>\<open>user_id\<close>, \<^verbatim>\<open>item_id\<close>, \<^verbatim>\<open>item_category\<close> are read as
    \<^verbatim>\<open>int32\<close>; no arithmetic is done on them, so they are integers here.
  \<^item> \<^verbatim>\<open>timestamp\<close> is read as \<^verbatim>\<open>int32\<close> epoch seconds and converted by
    \<^verbatim>\<open>pd.to_datetime(unit='s')\<close>. An instant is kept as its number of whole seconds:
    every \<^verbatim>\<open>int32\<close> second count and every difference of two of them fits the 64-bit
    nanosecond representation, so nothing wraps.
  \<^item> \<^verbatim>\<open>float64\<close> values are real numbers. The tables are computed in exact arithmetic;
    the rounding of the floating-point operations is written out separately, for the
    monetary column and the segment means, in the section on float64 evaluation.
\<close>

subsection \<open>Data model\<close>

record BehaviorRecord =
  user_id :: int
  item_id :: int
  item_category :: int
  behavior_type :: string
  timestamp :: int

text \<open>The columns of \<^verbatim>\<open>rfm\<close> after line 66 of the script.\<close>

record RFMRow =
  uid :: int
  last_purchase_date :: int
  frequency :: nat
  recency :: int
  monetary :: real

subsection \<open>Filter (line 59)\<close>

definition buy_df :: "BehaviorRecord list \<Rightarrow> BehaviorRecord list" where
  "buy_df df = filter (\<lambda>r. behavior_type r = ''buy'') df"

subsection \<open>RFM aggregation (lines 60--63)\<close>

text \<open>
  \<^verbatim>\<open>Series.max()\<close>: the largest element, \<^verbatim>\<open>NaT\<close> (here \<open>None\<close>) on an empty series.
\<close>

fun series_max :: "int list \<Rightarrow> int option" where
  "series_max [] = None"
| "series_max (t # ts) = Some (foldl max t ts)"

text \<open>
  \<^verbatim>\<open>groupby("user_id")\<close> splits the frame into one group per key; with the default
  \<^verbatim>\<open>sort=True\<close> the groups come in ascending key order.
\<close>

definition group_keys :: "BehaviorRecord list \<Rightarrow> int list" where
  "group_keys d = sort (remdups (map user_id d))"

definition get_group :: "BehaviorRecord list \<Rightarrow> int \<Rightarrow> BehaviorRecord list" where
  "get_group d u = filter (\<lambda>r. user_id r = u) d"

text \<open>
  \<^verbatim>\<open>.agg({'timestamp': ['max', 'count']})\<close> on one group, followed by
  \<^verbatim>\<open>reset_index()\<close> and the renaming of the columns to
  \<^verbatim>\<open>user_id, last_purchase_date, frequency\<close>. A group without rows yields no row.
\<close>

definition agg_group :: "int \<Rightarrow> BehaviorRecord list \<Rightarrow> (int \<times> int \<times> nat) list" where
  "agg_group u g =
     (case series_max (map timestamp g) of
        None \<Rightarrow> []
      | Some m \<Rightarrow> [(u, m, length g)])"

definition rfm_agg :: "BehaviorRecord list \<Rightarrow> (int \<times> int \<times> nat) list" where
  "rfm_agg d = concat (map (\<lambda>u. agg_group u (get_group d u)) (group_keys d))"

subsection \<open>Recency and monetary value (lines 64--66)\<close>

definition reference_date :: "BehaviorRecord list \<Rightarrow> int option" where
  "reference_date d = series_max (map timestamp d)"

text \<open>
  \<^verbatim>\<open>(reference_date - last).dt.days\<close>: the days component of a time difference is the
  floor of the difference over the length of a day.
\<close>

definition days :: "int \<Rightarrow> int" where
  "days delta = delta div 86400"

definition mk_rfm_row :: "int \<Rightarrow> int \<times> int \<times> nat \<Rightarrow> RFMRow" where
  "mk_rfm_row ref a =
     (case a of (u, lpd, n) \<Rightarrow>
        \<lparr>uid = u, last_purchase_date = lpd, frequency = n,
         recency = days (ref - lpd),
         monetary = real n * (98 / 3.4)\<rparr>)"

text \<open>
  The table \<^verbatim>\<open>rfm\<close> computed from \<^verbatim>\<open>buy_df\<close>. When \<^verbatim>\<open>buy_df\<close> has no rows the
  reference date is \<^verbatim>\<open>NaT\<close> and the aggregated table has no rows either (lemma
  \<open>reference_date_None_iff\<close> below), so the two new columns are empty.
\<close>

definition rfm_table :: "BehaviorRecord list \<Rightarrow> RFMRow list" where
  "rfm_table d =
     (case reference_date d of
        None \<Rightarrow> []
      | Some ref \<Rightarrow> map (mk_rfm_row ref) (rfm_agg d))"

definition rfm :: "BehaviorRecord list \<Rightarrow> RFMRow list" where
  "rfm df = rfm_table (buy_df df)"

subsection \<open>The reference date as the specification words it\<close>

text \<open>
  Section 4.1 of the specification defines the reference date from the aggregated table:
  \<^verbatim>\<open>reference_date = max(last_purchase_date) over all users\<close>, the maximum of the
  \<^verbatim>\<open>last_purchase_date\<close> column of the table built at lines 60--63. The script (line 64)
  takes the maximum of the \<^verbatim>\<open>timestamp\<close> column of \<^verbatim>\<open>buy_df\<close> instead; that is
  \<open>reference_date\<close> above.
\<close>

definition spec_reference_date :: "BehaviorRecord list \<Rightarrow> int option" where
  "spec_reference_date d = series_max (map (\<lambda>(u, lpd, n). lpd) (rfm_agg d))"

subsection \<open>A small behaviour log\<close>

text \<open>Two buyers; user 3 also has a page view later than every purchase.\<close>

definition ex_log :: "BehaviorRecord list" where
  "ex_log =
    [\<lparr>user_id = 7, item_id = 11, item_category = 1, behavior_type = ''buy'', timestamp = 100\<rparr>,
     \<lparr>user_id = 3, item_id = 12, item_category = 1, behavior_type = ''pv'', timestamp = 999999\<rparr>,
     \<lparr>user_id = 3, item_id = 12, item_category = 1, behavior_type = ''buy'', timestamp = 200000\<rparr>,
     \<lparr>user_id = 7, item_id = 15, item_category = 2, behavior_type = ''buy'', timestamp = 50\<rparr>]"

text \<open>The row of a user in the RFM table, if there is one.\<close>

definition row_of :: "RFMRow list \<Rightarrow> int \<Rightarrow> RFMRow option" where
  "row_of rows u = find (\<lambda>row. uid row = u) rows"

subsection \<open>The example of the specification: five buyers\<close>

text \<open>
  Purchases of the users 1 to 5; user 1 has ten of them, the last one at the latest timestamp
  of the log. One page view of a sixth user comes later than every purchase.
\<close>

definition buy :: "int \<Rightarrow> int \<Rightarrow> BehaviorRecord" where
  "buy u t = \<lparr>user_id = u, item_id = 0, item_category = 0, behavior_type = ''buy'', timestamp = t\<rparr>"

definition ex_five :: "BehaviorRecord list" where
  "ex_five =
    [buy 2 1511544070, buy 1 1511550000, buy 1 1511560000, buy 3 1511570000,
     buy 1 1511580000, buy 1 1511590000, buy 4 1511600000, buy 1 1511610000,
     \<lparr>user_id = 6, item_id = 9, item_category = 9, behavior_type = ''pv'', timestamp = 1512300000\<rparr>,
     buy 1 1511620000, buy 1 1511630000, buy 5 1511640000, buy 1 1511650000,
     buy 1 1511660000, buy 1 1512259200]"

subsection \<open>Row-wise description of the tables\<close>

text \<open>
  The aggregated table and the RFM table written with \<open>Max\<close> and \<open>filter\<close>; the lemmas
  \<open>rfm_agg_rows\<close> and \<open>rfm_table_rows\<close> show that the tables above consist of these rows.
\<close>

definition agg_row :: "BehaviorRecord list \<Rightarrow> int \<Rightarrow> int \<times> int \<times> nat" where
  "agg_row d u =
     (u, Max (timestamp ` {r \<in> set d. user_id r = u}), length (filter (\<lambda>r. user_id r = u) d))"

definition rfm_row :: "BehaviorRecord list \<Rightarrow> int \<Rightarrow> RFMRow" where
  "rfm_row d u = mk_rfm_row (Max (timestamp ` set d)) (agg_row d u)"

section \<open>Clustering and presentation (lines 43--56 and 68--188)\<close>

subsection \<open>The matrix handed to the scaler (line 81)\<close>

type_synonym point = "real \<times> real \<times> real"

definition rfm_norm :: "RFMRow list \<Rightarrow> point list" where
  "rfm_norm t = map (\<lambda>r. (real_of_int (recency r), real (frequency r), monetary r)) t"

subsection \<open>Library failures\<close>

text \<open>
  The script contains no \<^verbatim>\<open>raise\<close>, no \<^verbatim>\<open>try\<close> and no exception class of its own, and it
  never tests whether \<^verbatim>\<open>buy_df\<close> or \<^verbatim>\<open>rfm\<close> is empty. A run can only stop inside a
  library call. Two such stops matter here, both a \<^verbatim>\<open>ValueError\<close> of scikit-learn:
  \<^item> \<^verbatim>\<open>MinMaxScaler().fit_transform\<close> validates its input and rejects an array with
    0 rows (\<^verbatim>\<open>Found array with 0 sample(s) ... while a minimum of 1 is required\<close>);
  \<^item> \<^verbatim>\<open>KMeans(n_clusters=4).fit_predict\<close> rejects an array with fewer rows than
    clusters (\<^verbatim>\<open>n_samples=.. should be >= n_clusters=4\<close>).
  Streamlit shows an uncaught exception and stops the script at that line; what was
  rendered before stays on the page. In the terms of section 7 of the specification the
  first is the no-data condition and the second the insufficient-samples condition. The
  third value, \<open>Float_division_by_zero\<close>, is the float exception the normalizer's guard
  for a constant column is there to avoid.
\<close>

datatype library_error =
    MinMaxScaler_found_0_samples
  | KMeans_n_samples_lt_n_clusters nat nat
  | Float_division_by_zero

subsection \<open>Normalizer (lines 82--83)\<close>

text \<open>
  Division with the zero divisor made visible. In HOL \<open>x / 0 = 0\<close>, which would hide a
  division by zero; here it is \<open>None\<close>.
\<close>

definition checked_div :: "real \<Rightarrow> real \<Rightarrow> real option" where
  "checked_div a b = (if b = 0 then None else Some (a / b))"

text \<open>
  Modelled from the spec: the scaler is scikit-learn's \<^verbatim>\<open>MinMaxScaler\<close>, which the script
  only calls (\<^verbatim>\<open>scaler.fit_transform(rfm_norm)\<close>); its code is not part of the repository.
  Section 4.2: each column is scaled independently,
  \<^verbatim>\<open>normalized = (x - min(x)) / (max(x) - min(x))\<close> across all users, and if a column is
  constant (max = min) the normalized value is 0 for all rows, by an explicit branch.
  (The library computes the same value as \<^verbatim>\<open>x * scale_ + min_\<close> and replaces a zero data
  range by 1.)
\<close>

definition minmax_value :: "real \<Rightarrow> real \<Rightarrow> real \<Rightarrow> real option" where
  "minmax_value lo hi v = (if hi = lo then Some 0 else checked_div (v - lo) (hi - lo))"

definition minmax_column :: "real list \<Rightarrow> real list option" where
  "minmax_column xs =
     (case xs of
        [] \<Rightarrow> Some []
      | x # rest \<Rightarrow>
          (let lo = foldl min x rest; hi = foldl max x rest
           in those (map (minmax_value lo hi) xs)))"

text \<open>
  Modelled from the spec: \<^verbatim>\<open>fit_transform\<close> on the three columns recency, frequency and
  monetary; the rejection of an array without rows is the library's input validation.
\<close>

definition MinMaxScaler_fit_transform :: "point list \<Rightarrow> library_error + point list" where
  "MinMaxScaler_fit_transform X =
     (if X = [] then Inl MinMaxScaler_found_0_samples
      else case minmax_column (map fst X) of
             None \<Rightarrow> Inl Float_division_by_zero
           | Some rs \<Rightarrow>
               (case minmax_column (map (\<lambda>p. fst (snd p)) X) of
                  None \<Rightarrow> Inl Float_division_by_zero
                | Some fs \<Rightarrow>
                    (case minmax_column (map (\<lambda>p. snd (snd p)) X) of
                       None \<Rightarrow> Inl Float_division_by_zero
                     | Some ms \<Rightarrow> Inr (zip rs (zip fs ms)))))"

text \<open>
  Section 4.2 as a relation between a column \<open>xs\<close> and its normalized column \<open>ys\<close>: the
  columns correspond position by position, every normalized value lies in \<open>[0, 1]\<close>, a
  constant column is normalized to 0, and otherwise
  \<open>y * (max - min) = x - min\<close>, the formula
  \<^verbatim>\<open>normalized = (x - min(x)) / (max(x) - min(x))\<close> written without a division.
\<close>

definition min_max_scaled :: "real list \<Rightarrow> real list \<Rightarrow> bool" where
  "min_max_scaled xs ys \<longleftrightarrow>
     length ys = length xs
     \<and> (\<forall>i < length xs.
           0 \<le> ys ! i \<and> ys ! i \<le> 1
         \<and> (if Max (set xs) = Min (set xs) then ys ! i = 0
            else ys ! i * (Max (set xs) - Min (set xs)) = xs ! i - Min (set xs)))"

subsection \<open>Segmenter (lines 84--85)\<close>

definition n_clusters :: nat where
  "n_clusters = 4"

text \<open>
  \<^verbatim>\<open>KMeans(n_clusters=4, random_state=42).fit_predict\<close>. The fitted labels (k-means++
  seeding from the library's random generator, Lloyd iterations in floating point) are the
  parameter \<open>fit\<close>: one cluster index per row. Only the library's check of the number of
  samples against the number of clusters is written out.
\<close>

definition KMeans_fit_predict :: "(point list \<Rightarrow> nat list) \<Rightarrow> point list \<Rightarrow> library_error + nat list" where
  "KMeans_fit_predict fit X =
     (if length X < n_clusters then Inl (KMeans_n_samples_lt_n_clusters (length X) n_clusters)
      else Inr (fit X))"

subsection \<open>Segment labelling (lines 104--105)\<close>

record SegRow = RFMRow +
  cluster :: nat
  segment :: "string option"

definition labels :: "(nat \<times> string) list" where
  "labels = [(0, ''VIP''), (1, ''Churn Risk''), (2, ''Loyal''), (3, ''At_Risk'')]"

text \<open>\<^verbatim>\<open>rfm['cluster'].map(labels)\<close>: a cluster index without a label gives a missing value.\<close>

definition with_cluster :: "RFMRow \<Rightarrow> nat \<Rightarrow> SegRow" where
  "with_cluster r c =
     \<lparr>uid = uid r, last_purchase_date = last_purchase_date r, frequency = frequency r,
      recency = recency r, monetary = monetary r, cluster = c, segment = map_of labels c\<rparr>"

subsection \<open>Segment summary (line 119)\<close>

record SummaryRow =
  segment_name :: string
  mean_recency :: real
  mean_frequency :: real
  mean_monetary :: real

text \<open>The arithmetic mean in exact arithmetic; \<open>group_mean64\<close> below is its float64 evaluation.\<close>

definition mean :: "real list \<Rightarrow> real" where
  "mean xs = sum_list xs / real (length xs)"

text \<open>
  \<^verbatim>\<open>rfm.groupby('segment')[['recency', 'frequency', 'monetary']].mean()\<close>: one row per
  segment name present, in ascending order of the names; rows with a missing segment are
  dropped by \<^verbatim>\<open>groupby\<close>.
\<close>

definition segment_means :: "SegRow list \<Rightarrow> SummaryRow list" where
  "segment_means rows =
     map (\<lambda>s. let g = filter (\<lambda>r. segment r = Some s) rows
              in \<lparr>segment_name = s,
                  mean_recency = mean (map (\<lambda>r. real_of_int (recency r)) g),
                  mean_frequency = mean (map (\<lambda>r. real (frequency r)) g),
                  mean_monetary = mean (map monetary g)\<rparr>)
         (sort (remdups (List.map_filter segment rows)))"

text \<open>\<^verbatim>\<open>.round(2)\<close>: to two decimals, a tie going to the even neighbour.\<close>

definition rint :: "real \<Rightarrow> int" where
  "rint x =
     (let f = \<lfloor>x\<rfloor>; d = x - of_int f
      in if d < 1 / 2 then f else if 1 / 2 < d then f + 1 else if even f then f else f + 1)"

definition round2 :: "real \<Rightarrow> real" where
  "round2 x = real_of_int (rint (x * 100)) / 100"

definition round_row :: "SummaryRow \<Rightarrow> SummaryRow" where
  "round_row s =
     \<lparr>segment_name = segment_name s, mean_recency = round2 (mean_recency s),
      mean_frequency = round2 (mean_frequency s), mean_monetary = round2 (mean_monetary s)\<rparr>"

subsection \<open>The page\<close>

text \<open>
  What the script puts on the page, in the order of the calls; an element carries its
  label or the name of the object drawn (emoji of the labels are left out).
\<close>

datatype element =
    Sidebar_title string
  | Sidebar_multiselect string
  | Sidebar_radio string
  | Sidebar_metric string
  | Markdown string
  | Title string
  | Subheader string
  | Dataframe string
  | Pyplot string
  | Line_chart string
  | Download_button string
  | Expander string

fun is_chart :: "element \<Rightarrow> bool" where
  "is_chart (Pyplot _) = True"
| "is_chart (Line_chart _) = True"
| "is_chart _ = False"

record Result =
  rfm_segmented :: "SegRow list"
  segment_summary :: "SummaryRow list"

text \<open>Lines 43--78: sidebar, title, raw table and the three histograms.\<close>

definition rendered_before_clustering :: "bool \<Rightarrow> element list" where
  "rendered_before_clustering dark =
     [Sidebar_title ''User Filters'', Sidebar_multiselect ''Select Behaviors'',
      Sidebar_radio ''Theme'']
     @ (if dark then [Markdown ''<style>body { background-color: #111; color: white; }</style>'']
        else [])
     @ [Title ''E-commerce User Behavior Dashboard'',
        Subheader ''Raw Dataset (Top 100,000 rows)'', Dataframe ''df'',
        Subheader ''RFM Distributions'', Pyplot ''Recency, Frequency, Monetary histograms'']"

text \<open>Lines 88--188.\<close>

definition rendered_after_clustering :: "element list" where
  "rendered_after_clustering =
     [Subheader ''Boxplot by Cluster'', Pyplot ''boxplots by cluster'',
      Subheader ''Cluster Distribution (Pie Chart)'', Pyplot ''cluster pie chart'',
      Subheader ''Segment Distribution (Bar Plot)'', Pyplot ''segment bar plot'',
      Subheader ''Segment RFM Averages (Heatmap + Table)'', Dataframe ''segment_summary'',
      Pyplot ''segment_summary heatmap'',
      Subheader ''Time Series Analysis'',
      Markdown ''**Daily Purchase Trends**'', Line_chart ''daily_counts'',
      Markdown ''**Monthly Purchase Trends**'', Line_chart ''monthly_counts'',
      Subheader ''Download Clustered & Segmented Data'',
      Download_button ''Download RFM Clustered CSV'',
      Sidebar_title ''Dataset Summary'', Sidebar_metric ''Total Users'',
      Sidebar_metric ''Date Range'',
      Expander ''Show RFM Pairplot'', Pyplot ''pairplot'',
      Subheader ''Precision Marketing Strategies'', Dataframe ''strategy_df'',
      Download_button ''Download Strategy CSV'']"

text \<open>
  The whole script on a loaded frame \<open>df\<close>; \<open>dark\<close> is the theme chosen in the sidebar.
  The result is the page so far together with either the library failure that stopped the
  run or the segmented table and the segment summary.
\<close>

definition dashboard ::
  "(point list \<Rightarrow> nat list) \<Rightarrow> bool \<Rightarrow> BehaviorRecord list
     \<Rightarrow> element list \<times> (library_error + Result)" where
  "dashboard fit dark df =
     (let t = rfm df; shown = rendered_before_clustering dark
      in case MinMaxScaler_fit_transform (rfm_norm t) of
           Inl e \<Rightarrow> (shown, Inl e)
         | Inr rfm_scaled \<Rightarrow>
             (case KMeans_fit_predict fit rfm_scaled of
                Inl e \<Rightarrow> (shown, Inl e)
              | Inr cl \<Rightarrow>
                  (let seg = map2 with_cluster t cl
                   in (shown @ rendered_after_clustering,
                       Inr \<lparr>rfm_segmented = seg,
                            segment_summary = map round_row (segment_means seg)\<rparr>))))"

section \<open>float64 evaluation of the monetary column and the segment means\<close>













subsection \<open>More example inputs\<close>

text \<open>Three buyers with one purchase each.\<close>

definition ex_once :: "BehaviorRecord list" where
  "ex_once = [buy 4 1511544070, buy 9 1511803270, buy 6 1511630470]"

text \<open>A log without any purchase.\<close>

definition ex_views :: "BehaviorRecord list" where
  "ex_views =
    [\<lparr>user_id = 1, item_id = 2268318, item_category = 2520377, behavior_type = ''pv'',
      timestamp = 1511544070\<rparr>,
     \<lparr>user_id = 1, item_id = 2333346, item_category = 2520771, behavior_type = ''cart'',
      timestamp = 1511561733\<rparr>,
     \<lparr>user_id = 2, item_id = 4365585, item_category = 2520377, behavior_type = ''fav'',
      timestamp = 1511596146\<rparr>]"

text \<open>A stand-in for the fitted labels, used to run the examples.\<close>

definition ex_fit :: "point list \<Rightarrow> nat list" where
  "ex_fit X = map (\<lambda>(r, f, m). if 1 / 2 < f then 0 else if r < 19 / 20 then 1 else 2) X"





section \<open>Properties of the aggregation\<close>

lemma foldl_max_Max: "foldl max (t::int) ts = Max (set (t # ts))"
proof (induction ts arbitrary: t)
  case Nil
  show ?case by simp
next
  case (Cons a ts)
  have "foldl max t (a # ts) = Max (set (max t a # ts))"
    using Cons.IH [of "max t a"] by simp
  also have "\<dots> = Max (set (t # a # ts))"
  proof (cases "ts = []")
    case True
    then show ?thesis by simp
  next
    case False
    then show ?thesis by (simp add: max.assoc)
  qed
  finally show ?case .
qed

lemma series_max_Some:
  "ts \<noteq> [] \<Longrightarrow> series_max ts = Some (Max (set ts))"
  by (cases ts) (simp_all add: foldl_max_Max)

lemma series_max_None_iff: "series_max ts = None \<longleftrightarrow> ts = []"
  by (cases ts) simp_all

lemma set_group_keys: "set (group_keys d) = user_id ` set d"
  by (simp add: group_keys_def)

lemma distinct_group_keys: "distinct (group_keys d)"
  by (simp add: group_keys_def)

lemma get_group_nonempty: "u \<in> set (group_keys d) \<Longrightarrow> get_group d u \<noteq> []"
  by (auto simp: set_group_keys get_group_def filter_empty_conv)

lemma set_get_group: "set (get_group d u) = {r \<in> set d. user_id r = u}"
  by (auto simp: get_group_def)

lemma agg_group_key:
  assumes "u \<in> set (group_keys d)"
  shows "agg_group u (get_group d u) = [agg_row d u]"
proof -
  have ne: "map timestamp (get_group d u) \<noteq> []"
    using get_group_nonempty [OF assms] by simp
  have "series_max (map timestamp (get_group d u))
          = Some (Max (set (map timestamp (get_group d u))))"
    by (rule series_max_Some [OF ne])
  moreover have "set (map timestamp (get_group d u)) = timestamp ` {r \<in> set d. user_id r = u}"
    by (simp add: set_get_group)
  ultimately show ?thesis
    by (simp add: agg_group_def agg_row_def get_group_def)
qed

lemma concat_map_singleton:
  "(\<And>x. x \<in> set xs \<Longrightarrow> f x = [g x]) \<Longrightarrow> concat (map f xs) = map g xs"
  by (induction xs) simp_all

lemma rfm_agg_rows: "rfm_agg d = map (agg_row d) (group_keys d)"
  unfolding rfm_agg_def
  by (rule concat_map_singleton) (rule agg_group_key)

lemma group_keys_empty_iff: "group_keys d = [] \<longleftrightarrow> d = []"
proof -
  have "group_keys d = [] \<longleftrightarrow> set (group_keys d) = {}"
    by simp
  also have "\<dots> \<longleftrightarrow> d = []"
    by (simp only: set_group_keys image_is_empty set_empty)
  finally show ?thesis .
qed

lemma reference_date_None_iff: "reference_date d = None \<longleftrightarrow> rfm_agg d = []"
  by (simp add: reference_date_def series_max_None_iff rfm_agg_rows group_keys_empty_iff)

lemma reference_date_Some:
  "d \<noteq> [] \<Longrightarrow> reference_date d = Some (Max (timestamp ` set d))"
  by (simp add: reference_date_def series_max_Some)

lemma rfm_table_rows: "rfm_table d = map (rfm_row d) (group_keys d)"
proof (cases "d = []")
  case True
  then show ?thesis
    by (simp add: rfm_table_def reference_date_def group_keys_def)
next
  case False
  then show ?thesis
    by (simp add: rfm_table_def reference_date_Some rfm_agg_rows rfm_row_def)
qed

lemma rfm_row_fields:
  "uid (rfm_row d u) = u"
  "last_purchase_date (rfm_row d u) = Max (timestamp ` {r \<in> set d. user_id r = u})"
  "frequency (rfm_row d u) = length (filter (\<lambda>r. user_id r = u) d)"
  "recency (rfm_row d u) = days (Max (timestamp ` set d) - Max (timestamp ` {r \<in> set d. user_id r = u}))"
  "monetary (rfm_row d u) = real (length (filter (\<lambda>r. user_id r = u) d)) * (98 / 3.4)"
  by (simp_all add: rfm_row_def mk_rfm_row_def agg_row_def)

lemma set_rfm_table: "set (rfm_table d) = rfm_row d ` user_id ` set d"
  by (simp add: rfm_table_rows set_group_keys)

lemma map_uid_rfm_table: "map uid (rfm_table d) = group_keys d"
  by (simp add: rfm_table_rows rfm_row_fields comp_def)

lemma length_filter_eq_distinct:
  "distinct xs \<Longrightarrow> length (filter (\<lambda>k. k = u) xs) = (if u \<in> set xs then 1 else 0)"
  by (induction xs) auto

lemma rows_for_user:
  "length (filter (\<lambda>row. uid row = u) (rfm_table d)) = (if u \<in> user_id ` set d then 1 else 0)"
proof -
  have "length (filter (\<lambda>row. uid row = u) (rfm_table d))
          = length (filter (\<lambda>k. k = u) (map uid (rfm_table d)))"
    by (simp add: filter_map comp_def)
  also have "\<dots> = (if u \<in> set (group_keys d) then 1 else 0)"
    unfolding map_uid_rfm_table
    by (rule length_filter_eq_distinct [OF distinct_group_keys])
  finally show ?thesis
    by (simp only: set_group_keys)
qed

lemma buy_df_user_filter:
  "filter (\<lambda>r. user_id r = u) (buy_df df) = filter (\<lambda>r. behavior_type r = ''buy'' \<and> user_id r = u) df"
  by (simp add: buy_df_def conj_commute)

lemma set_buy_df_user:
  "{r \<in> set (buy_df df). user_id r = u} = {r \<in> set df. behavior_type r = ''buy'' \<and> user_id r = u}"
  by (auto simp: buy_df_def)

text \<open>
  Claim C1. Applied to the purchase records, the aggregator yields exactly one row for every
  user that has a purchase record and no row for any other user; the \<open>frequency\<close> of a row
  is the number of purchase records of its user and its \<open>last_purchase_date\<close> is the largest
  timestamp among them.
\<close>

theorem rfm_one_row_per_user:
  "(\<forall>u. length (filter (\<lambda>row. uid row = u) (rfm df))
          = (if u \<in> user_id ` {r \<in> set df. behavior_type r = ''buy''} then 1 else 0))
   \<and> (\<forall>row \<in> set (rfm df).
         frequency row = length (filter (\<lambda>r. behavior_type r = ''buy'' \<and> user_id r = uid row) df)
       \<and> last_purchase_date row
           = Max (timestamp ` {r \<in> set df. behavior_type r = ''buy'' \<and> user_id r = uid row}))"
proof (intro conjI allI ballI)
  fix u
  have "set (buy_df df) = {r \<in> set df. behavior_type r = ''buy''}"
    by (auto simp: buy_df_def)
  then show "length (filter (\<lambda>row. uid row = u) (rfm df))
      = (if u \<in> user_id ` {r \<in> set df. behavior_type r = ''buy''} then 1 else 0)"
    by (simp only: rfm_def rows_for_user)
next
  fix row assume "row \<in> set (rfm df)"
  then obtain u where row: "row = rfm_row (buy_df df) u"
    by (auto simp: rfm_def set_rfm_table)
  show "frequency row = length (filter (\<lambda>r. behavior_type r = ''buy'' \<and> user_id r = uid row) df)"
    by (simp only: row rfm_row_fields buy_df_user_filter)
  show "last_purchase_date row
           = Max (timestamp ` {r \<in> set df. behavior_type r = ''buy'' \<and> user_id r = uid row})"
    by (simp only: row rfm_row_fields set_buy_df_user)
qed

lemma rfm_ex_log:
  "rfm ex_log =
    [\<lparr>uid = 3, last_purchase_date = 200000, frequency = 1, recency = 0, monetary = 490 / 17\<rparr>,
     \<lparr>uid = 7, last_purchase_date = 100, frequency = 2, recency = 2, monetary = 980 / 17\<rparr>]"
  by code_simp

theorem rfm_one_row_per_user_witness:
  "\<lparr>uid = 7, last_purchase_date = 100, frequency = 2, recency = 2, monetary = 980 / 17\<rparr>
      \<in> set (rfm ex_log)
   \<and> length (filter (\<lambda>row. uid row = 7) (rfm ex_log)) = 1
   \<and> length (filter (\<lambda>row. uid row = 4) (rfm ex_log)) = 0
   \<and> length (filter (\<lambda>r. behavior_type r = ''buy'' \<and> user_id r = 7) ex_log) = 2
   \<and> Max (timestamp ` {r \<in> set ex_log. behavior_type r = ''buy'' \<and> user_id r = 7}) = 100"
proof -
  let ?row = "\<lparr>uid = 7, last_purchase_date = 100, frequency = 2, recency = 2, monetary = 980 / 17\<rparr>"
  have mem: "?row \<in> set (rfm ex_log)"
    by (simp add: rfm_ex_log)
  have one: "length (filter (\<lambda>row. uid row = 7) (rfm ex_log)) = 1"
    and none: "length (filter (\<lambda>row. uid row = 4) (rfm ex_log)) = 0"
    by (simp_all add: rfm_ex_log)
  from rfm_one_row_per_user [of ex_log] mem
  have "frequency ?row = length (filter (\<lambda>r. behavior_type r = ''buy'' \<and> user_id r = uid ?row) ex_log)
      \<and> last_purchase_date ?row
           = Max (timestamp ` {r \<in> set ex_log. behavior_type r = ''buy'' \<and> user_id r = uid ?row})"
    by blast
  with mem one none show ?thesis by simp
qed

section \<open>The reference date\<close>

lemma row_le_user_max:
  "r \<in> set d \<Longrightarrow> timestamp r \<le> Max (timestamp ` {r' \<in> set d. user_id r' = user_id r})"
  by (intro Max_ge) auto

lemma user_max_le_all:
  assumes "u \<in> user_id ` set d"
  shows "Max (timestamp ` {r \<in> set d. user_id r = u}) \<le> Max (timestamp ` set d)"
proof (rule Max_mono)
  show "timestamp ` {r \<in> set d. user_id r = u} \<subseteq> timestamp ` set d" by auto
  show "timestamp ` {r \<in> set d. user_id r = u} \<noteq> {}" using assms by auto
  show "finite (timestamp ` set d)" by simp
qed

lemma Max_user_maxes:
  assumes "d \<noteq> []"
  shows "Max ((\<lambda>u. Max (timestamp ` {r \<in> set d. user_id r = u})) ` user_id ` set d)
           = Max (timestamp ` set d)"
proof (rule Max_eqI)
  show "finite ((\<lambda>u. Max (timestamp ` {r \<in> set d. user_id r = u})) ` user_id ` set d)"
    by simp
next
  fix y assume "y \<in> (\<lambda>u. Max (timestamp ` {r \<in> set d. user_id r = u})) ` user_id ` set d"
  then obtain u where "u \<in> user_id ` set d" and "y = Max (timestamp ` {r \<in> set d. user_id r = u})"
    by blast
  then show "y \<le> Max (timestamp ` set d)"
    using user_max_le_all by simp
next
  have "Max (timestamp ` set d) \<in> timestamp ` set d"
    using assms by (intro Max_in) simp_all
  then obtain r where r: "r \<in> set d" and m: "Max (timestamp ` set d) = timestamp r"
    by blast
  have "Max (timestamp ` {r' \<in> set d. user_id r' = user_id r}) = timestamp r"
  proof (rule antisym)
    show "Max (timestamp ` {r' \<in> set d. user_id r' = user_id r}) \<le> timestamp r"
      using user_max_le_all [of "user_id r" d] r m by simp
    show "timestamp r \<le> Max (timestamp ` {r' \<in> set d. user_id r' = user_id r})"
      by (rule row_le_user_max [OF r])
  qed
  then have "Max (timestamp ` set d) = Max (timestamp ` {r' \<in> set d. user_id r' = user_id r})"
    using m by simp
  moreover have "user_id r \<in> user_id ` set d"
    using r by (rule imageI)
  ultimately show "Max (timestamp ` set d)
      \<in> (\<lambda>u. Max (timestamp ` {r \<in> set d. user_id r = u})) ` user_id ` set d"
    by (rule image_eqI)
qed

lemma lpd_rfm_agg:
  "map (\<lambda>(u, lpd, n). lpd) (rfm_agg d)
     = map (\<lambda>u. Max (timestamp ` {r \<in> set d. user_id r = u})) (group_keys d)"
  by (simp add: rfm_agg_rows agg_row_def comp_def)

text \<open>
  Claim C9. The maximum timestamp over all purchase records (the script) is the maximum of the
  users' last purchase dates (the specification). The two agree on every purchase table; on
  the empty one both are \<^verbatim>\<open>NaT\<close>.
\<close>

theorem reference_date_refines_spec:
  "reference_date (buy_df df) = spec_reference_date (buy_df df)"
proof (cases "buy_df df = []")
  case True
  then show ?thesis
    by (simp add: reference_date_def spec_reference_date_def rfm_agg_rows group_keys_def)
next
  case False
  have ne: "map (\<lambda>(u, lpd, n). lpd) (rfm_agg (buy_df df)) \<noteq> []"
    using False by (simp add: rfm_agg_rows group_keys_empty_iff)
  have "spec_reference_date (buy_df df)
          = Some (Max (set (map (\<lambda>(u, lpd, n). lpd) (rfm_agg (buy_df df)))))"
    unfolding spec_reference_date_def by (rule series_max_Some [OF ne])
  also have "set (map (\<lambda>(u, lpd, n). lpd) (rfm_agg (buy_df df)))
      = (\<lambda>u. Max (timestamp ` {r \<in> set (buy_df df). user_id r = u})) ` user_id ` set (buy_df df)"
    by (simp only: lpd_rfm_agg set_map set_group_keys)
  also have "Max \<dots> = Max (timestamp ` set (buy_df df))"
    by (rule Max_user_maxes [OF False])
  finally show ?thesis
    by (simp add: reference_date_Some [OF False])
qed

section \<open>Recency\<close>

lemma days_nonneg: "0 \<le> delta \<Longrightarrow> 0 \<le> days delta"
  by (simp add: days_def pos_imp_zdiv_nonneg_iff)

lemma days_floor: "days delta = \<lfloor>real_of_int delta / 86400\<rfloor>"
proof -
  have "\<lfloor>real_of_int delta / real_of_int 86400\<rfloor> = delta div 86400"
    by (rule floor_divide_of_int_eq)
  then show ?thesis by (simp add: days_def)
qed

lemma set_rfm: "set (rfm df) = rfm_row (buy_df df) ` user_id ` set (buy_df df)"
  by (simp add: rfm_def set_rfm_table)

lemma rfm_nonempty_buy: "row \<in> set (rfm df) \<Longrightarrow> buy_df df \<noteq> []"
  by (auto simp: set_rfm)

text \<open>
  Claim C2. For every row of the RFM table the recency is the floor of the time between the
  reference date and the row's last purchase date, counted in days of 86400 seconds; it is
  never negative, and it is 0 for a most recent purchaser, a row whose last purchase date
  is the largest of the table.
\<close>

theorem recency_whole_days:
  "\<forall>row \<in> set (rfm df).
     (\<exists>ref. reference_date (buy_df df) = Some ref
        \<and> recency row = \<lfloor>real_of_int (ref - last_purchase_date row) / 86400\<rfloor>)
     \<and> 0 \<le> recency row
     \<and> ((\<forall>other \<in> set (rfm df). last_purchase_date other \<le> last_purchase_date row)
          \<longrightarrow> recency row = 0)"
proof
  fix row assume mem: "row \<in> set (rfm df)"
  let ?d = "buy_df df"
  let ?ref = "Max (timestamp ` set ?d)"
  from mem obtain u where u: "u \<in> user_id ` set ?d" and row: "row = rfm_row ?d u"
    by (auto simp: set_rfm)
  have ne: "?d \<noteq> []" by (rule rfm_nonempty_buy [OF mem])
  have ref: "reference_date ?d = Some ?ref" by (rule reference_date_Some [OF ne])
  have rec: "recency row = days (?ref - last_purchase_date row)"
    by (simp only: row rfm_row_fields)
  have le: "last_purchase_date row \<le> ?ref"
    unfolding row rfm_row_fields by (rule user_max_le_all [OF u])
  have nonneg: "0 \<le> recency row"
    unfolding rec using le by (intro days_nonneg) simp
  have latest: "recency row = 0"
    if top: "\<forall>other \<in> set (rfm df). last_purchase_date other \<le> last_purchase_date row"
  proof -
    have "?ref \<in> timestamp ` set ?d"
      using ne by (intro Max_in) simp_all
    then obtain r where r: "r \<in> set ?d" and m: "?ref = timestamp r" by blast
    have "rfm_row ?d (user_id r) \<in> set (rfm df)"
      using r by (simp add: set_rfm)
    with top have "last_purchase_date (rfm_row ?d (user_id r)) \<le> last_purchase_date row"
      by blast
    moreover have "timestamp r \<le> last_purchase_date (rfm_row ?d (user_id r))"
      unfolding rfm_row_fields by (rule row_le_user_max [OF r])
    ultimately have "?ref \<le> last_purchase_date row" using m by simp
    with le have "?ref - last_purchase_date row = 0" by simp
    then show ?thesis by (simp add: rec days_def)
  qed
  show "(\<exists>ref. reference_date (buy_df df) = Some ref
        \<and> recency row = \<lfloor>real_of_int (ref - last_purchase_date row) / 86400\<rfloor>)
     \<and> 0 \<le> recency row
     \<and> ((\<forall>other \<in> set (rfm df). last_purchase_date other \<le> last_purchase_date row)
          \<longrightarrow> recency row = 0)"
    using ref rec nonneg latest by (auto simp: days_floor)
qed

theorem recency_whole_days_witness:
  "\<lparr>uid = 7, last_purchase_date = 100, frequency = 2, recency = 2, monetary = 980 / 17\<rparr>
      \<in> set (rfm ex_log)
   \<and> \<lparr>uid = 3, last_purchase_date = 200000, frequency = 1, recency = 0, monetary = 490 / 17\<rparr>
      \<in> set (rfm ex_log)
   \<and> reference_date (buy_df ex_log) = Some 200000
   \<and> \<lfloor>real_of_int (200000 - 100) / 86400\<rfloor> = 2
   \<and> map last_purchase_date (rfm ex_log) = [200000, 100]"
proof -
  let ?a = "\<lparr>uid = 7, last_purchase_date = 100, frequency = 2, recency = 2, monetary = 980 / 17\<rparr>"
  let ?b = "\<lparr>uid = 3, last_purchase_date = 200000, frequency = 1, recency = 0, monetary = 490 / 17\<rparr>"
  have a: "?a \<in> set (rfm ex_log)" and b: "?b \<in> set (rfm ex_log)"
    by (simp_all add: rfm_ex_log)
  have top: "\<forall>other \<in> set (rfm ex_log). last_purchase_date other \<le> last_purchase_date ?b"
    by (simp add: rfm_ex_log)
  have ref: "reference_date (buy_df ex_log) = Some 200000"
    by code_simp
  from recency_whole_days [of ex_log] a ref
  have "recency ?a = \<lfloor>real_of_int (200000 - last_purchase_date ?a) / 86400\<rfloor>"
    by fastforce
  moreover from recency_whole_days [of ex_log] b top have "recency ?b = 0"
    by blast
  moreover have "map last_purchase_date (rfm ex_log) = [200000, 100]"
    by (simp add: rfm_ex_log)
  ultimately show ?thesis using a b ref by simp
qed

section \<open>Monetary value\<close>

text \<open>
  Claim C3. For every row of the RFM table the monetary value is the frequency times
  \<open>98 / 3.4\<close>, that is the number of purchase records of the row's user times that constant:
  nothing else of the input enters it.
\<close>

theorem monetary_linear_in_frequency:
  "\<forall>row \<in> set (rfm df).
      monetary row = real (frequency row) * (98 / 3.4)
    \<and> monetary row
        = real (length (filter (\<lambda>r. behavior_type r = ''buy'' \<and> user_id r = uid row) df)) * (98 / 3.4)"
proof
  fix row assume "row \<in> set (rfm df)"
  then obtain u where row: "row = rfm_row (buy_df df) u"
    by (auto simp: set_rfm)
  show "monetary row = real (frequency row) * (98 / 3.4)
    \<and> monetary row
        = real (length (filter (\<lambda>r. behavior_type r = ''buy'' \<and> user_id r = uid row) df)) * (98 / 3.4)"
    by (simp only: row rfm_row_fields buy_df_user_filter simp_thms)
qed

theorem monetary_linear_in_frequency_witness:
  "\<lparr>uid = 7, last_purchase_date = 100, frequency = 2, recency = 2, monetary = 980 / 17\<rparr>
      \<in> set (rfm ex_log)
   \<and> (980 / 17 :: real) = real 2 * (98 / 3.4)
   \<and> length (filter (\<lambda>r. behavior_type r = ''buy'' \<and> user_id r = 7) ex_log) = 2"
proof -
  let ?a = "\<lparr>uid = 7, last_purchase_date = 100, frequency = 2, recency = 2, monetary = 980 / 17\<rparr>"
  have a: "?a \<in> set (rfm ex_log)"
    by (simp add: rfm_ex_log)
  from monetary_linear_in_frequency [of ex_log] a
  have "monetary ?a = real (frequency ?a) * (98 / 3.4)"
    by blast
  moreover have "length (filter (\<lambda>r. behavior_type r = ''buy'' \<and> user_id r = 7) ex_log) = 2"
    by (simp add: ex_log_def)
  ultimately show ?thesis using a by simp
qed

section \<open>The worked example\<close>

lemma rfm_ex_five:
  "rfm ex_five =
    [\<lparr>uid = 1, last_purchase_date = 1512259200, frequency = 10, recency = 0, monetary = 4900 / 17\<rparr>,
     \<lparr>uid = 2, last_purchase_date = 1511544070, frequency = 1, recency = 8, monetary = 490 / 17\<rparr>,
     \<lparr>uid = 3, last_purchase_date = 1511570000, frequency = 1, recency = 7, monetary = 490 / 17\<rparr>,
     \<lparr>uid = 4, last_purchase_date = 1511600000, frequency = 1, recency = 7, monetary = 490 / 17\<rparr>,
     \<lparr>uid = 5, last_purchase_date = 1511640000, frequency = 1, recency = 7, monetary = 490 / 17\<rparr>]"
  by code_simp

text \<open>
  Claim C4, as stated: on the five-buyer example user 1 has recency 0, frequency 10 and
  monetary value 294.12. Recency and frequency are as stated; the monetary value is
  \<open>10 * (98 / 3.4) = 4900 / 17\<close>, about 288.24, and not 294.12.
\<close>

theorem example_monetary_counterexample:
  "user_id ` set (buy_df ex_five) = {1, 2, 3, 4, 5}
   \<and> length (get_group (buy_df ex_five) 1) = 10
   \<and> reference_date (buy_df ex_five) = Some 1512259200
   \<and> map_option last_purchase_date (row_of (rfm ex_five) 1) = Some 1512259200
   \<and> map_option recency (row_of (rfm ex_five) 1) = Some 0
   \<and> map_option frequency (row_of (rfm ex_five) 1) = Some 10
   \<and> map_option monetary (row_of (rfm ex_five) 1) = Some (4900 / 17)
   \<and> map_option monetary (row_of (rfm ex_five) 1) \<noteq> Some 294.12"
proof -
  have "user_id ` set (buy_df ex_five) = {1, 2, 3, 4, 5}"
    by (auto simp: buy_df_def ex_five_def buy_def)
  moreover have "length (get_group (buy_df ex_five) 1) = 10"
    by (simp add: get_group_def buy_df_def ex_five_def buy_def)
  moreover have "reference_date (buy_df ex_five) = Some 1512259200"
    by (simp add: reference_date_def buy_df_def ex_five_def buy_def)
  ultimately show ?thesis
    by (simp add: rfm_ex_five row_of_def)
qed

lemma find_rfm_row:
  "u \<in> set ks \<Longrightarrow> find (\<lambda>row. uid row = u) (map (rfm_row d) ks) = Some (rfm_row d u)"
  by (induction ks) (auto simp: rfm_row_fields)

lemma row_of_rfm:
  "u \<in> user_id ` set (buy_df df) \<Longrightarrow> row_of (rfm df) u = Some (rfm_row (buy_df df) u)"
  unfolding row_of_def rfm_def rfm_table_rows
  by (rule find_rfm_row) (simp only: set_group_keys)

text \<open>
  Claim C4, amended: whenever the purchasing users are 1 to 5, user 1 has ten purchase records
  and one of them carries the latest purchase timestamp, the row of user 1 has recency 0,
  frequency 10 and monetary value \<open>10 * (98 / 3.4) = 4900 / 17\<close>, which is 288.24 to two
  decimals.
\<close>

theorem example_user_one:
  assumes users: "user_id ` set (buy_df df) = {1, 2, 3, 4, 5}"
    and ten: "length (filter (\<lambda>r. user_id r = 1) (buy_df df)) = 10"
    and r1: "r1 \<in> set (buy_df df)" "user_id r1 = 1"
    and latest: "\<forall>r \<in> set (buy_df df). timestamp r \<le> timestamp r1"
  shows "\<exists>row. row_of (rfm df) 1 = Some row \<and> recency row = 0 \<and> frequency row = 10
           \<and> monetary row = 10 * (98 / 3.4) \<and> monetary row = 4900 / 17
           \<and> \<bar>monetary row - 288.24\<bar> < 0.005"
proof -
  let ?d = "buy_df df"
  let ?row = "rfm_row ?d 1"
  have "row_of (rfm df) 1 = Some ?row"
    using users by (intro row_of_rfm) simp
  moreover have "frequency ?row = 10"
    by (simp only: rfm_row_fields ten)
  moreover have m: "monetary ?row = 10 * (98 / 3.4)"
    by (simp add: rfm_row_fields ten)
  moreover have "recency ?row = 0"
  proof -
    have "Max (timestamp ` set ?d) = timestamp r1"
      using r1 latest by (intro Max_eqI) auto
    moreover have "Max (timestamp ` {r \<in> set ?d. user_id r = 1}) = timestamp r1"
      using r1 latest by (intro Max_eqI) auto
    ultimately show ?thesis
      by (simp add: rfm_row_fields days_def)
  qed
  ultimately show ?thesis by simp
qed

theorem example_user_one_witness:
  "user_id ` set (buy_df ex_five) = {1, 2, 3, 4, 5}
   \<and> length (filter (\<lambda>r. user_id r = 1) (buy_df ex_five)) = 10
   \<and> buy 1 1512259200 \<in> set (buy_df ex_five)
   \<and> user_id (buy 1 1512259200) = 1
   \<and> map timestamp (buy_df ex_five) =
        [1511544070, 1511550000, 1511560000, 1511570000, 1511580000, 1511590000, 1511600000,
         1511610000, 1511620000, 1511630000, 1511640000, 1511650000, 1511660000, 1512259200]
   \<and> timestamp (buy 1 1512259200) = 1512259200
   \<and> map_option frequency (row_of (rfm ex_five) 1) = Some 10
   \<and> map_option recency (row_of (rfm ex_five) 1) = Some 0
   \<and> map_option monetary (row_of (rfm ex_five) 1) = Some (10 * (98 / 3.4))"
proof -
  have users: "user_id ` set (buy_df ex_five) = {1, 2, 3, 4, 5}"
    by (auto simp: buy_df_def ex_five_def buy_def)
  have ten: "length (filter (\<lambda>r. user_id r = 1) (buy_df ex_five)) = 10"
    by (simp add: buy_df_def ex_five_def buy_def)
  have r1: "buy 1 1512259200 \<in> set (buy_df ex_five)" "user_id (buy 1 1512259200) = 1"
    by (simp_all add: buy_df_def ex_five_def buy_def)
  have ts: "map timestamp (buy_df ex_five) =
        [1511544070, 1511550000, 1511560000, 1511570000, 1511580000, 1511590000, 1511600000,
         1511610000, 1511620000, 1511630000, 1511640000, 1511650000, 1511660000, 1512259200]"
    by (simp add: buy_df_def ex_five_def buy_def)
  have t1: "timestamp (buy 1 1512259200) = 1512259200"
    by (simp add: buy_def)
  have "\<forall>t \<in> set (map timestamp (buy_df ex_five)). t \<le> 1512259200"
    unfolding ts by simp
  then have latest: "\<forall>r \<in> set (buy_df ex_five). timestamp r \<le> timestamp (buy 1 1512259200)"
    unfolding t1 by simp
  from example_user_one [OF users ten r1 latest]
  have "map_option frequency (row_of (rfm ex_five) 1) = Some 10
   \<and> map_option recency (row_of (rfm ex_five) 1) = Some 0
   \<and> map_option monetary (row_of (rfm ex_five) 1) = Some (10 * (98 / 3.4))"
    by auto
  with users ten r1 ts t1 show ?thesis by simp
qed

section \<open>The normalizer\<close>

lemma foldl_max_Max_real: "foldl max (t::real) ts = Max (set (t # ts))"
proof (induction ts arbitrary: t)
  case Nil
  show ?case by simp
next
  case (Cons a ts)
  have "foldl max t (a # ts) = Max (set (max t a # ts))"
    using Cons.IH [of "max t a"] by simp
  also have "\<dots> = Max (set (t # a # ts))"
  proof (cases "ts = []")
    case True
    then show ?thesis by simp
  next
    case False
    then show ?thesis by (simp add: max.assoc)
  qed
  finally show ?case .
qed

lemma foldl_min_Min_real: "foldl min (t::real) ts = Min (set (t # ts))"
proof (induction ts arbitrary: t)
  case Nil
  show ?case by simp
next
  case (Cons a ts)
  have "foldl min t (a # ts) = Min (set (min t a # ts))"
    using Cons.IH [of "min t a"] by simp
  also have "\<dots> = Min (set (t # a # ts))"
  proof (cases "ts = []")
    case True
    then show ?thesis by simp
  next
    case False
    then show ?thesis by (simp add: min.assoc)
  qed
  finally show ?case .
qed

lemma those_map_Some:
  "(\<And>x. x \<in> set xs \<Longrightarrow> f x = Some (g x)) \<Longrightarrow> those (map f xs) = Some (map g xs)"
  by (induction xs) simp_all

lemma minmax_value_Some:
  "minmax_value lo hi v = Some (if hi = lo then 0 else (v - lo) / (hi - lo))"
  by (simp add: minmax_value_def checked_div_def)

text \<open>Without the guard the division by zero is reached on a constant column.\<close>

lemma checked_div_constant: "checked_div (v - lo) (lo - lo) = None"
  by (simp add: checked_div_def)

lemma minmax_column_eq:
  "minmax_column xs
     = Some (map (\<lambda>v. if Max (set xs) = Min (set xs) then 0
                       else (v - Min (set xs)) / (Max (set xs) - Min (set xs))) xs)"
proof (cases xs)
  case Nil
  then show ?thesis by (simp add: minmax_column_def)
next
  case (Cons x rest)
  have "those (map (minmax_value (Min (set xs)) (Max (set xs))) xs)
      = Some (map (\<lambda>v. if Max (set xs) = Min (set xs) then 0
                       else (v - Min (set xs)) / (Max (set xs) - Min (set xs))) xs)"
    by (rule those_map_Some) (rule minmax_value_Some)
  then show ?thesis
    by (simp only: Cons minmax_column_def list.case Let_def foldl_max_Max_real
        foldl_min_Min_real)
qed

lemma min_max_scaled_column:
  assumes "minmax_column xs = Some ys"
  shows "min_max_scaled xs ys"
proof -
  let ?lo = "Min (set xs)" and ?hi = "Max (set xs)"
  from assms have ys: "ys = map (\<lambda>v. if ?hi = ?lo then 0 else (v - ?lo) / (?hi - ?lo)) xs"
    by (simp add: minmax_column_eq)
  have "0 \<le> ys ! i \<and> ys ! i \<le> 1
      \<and> (if ?hi = ?lo then ys ! i = 0 else ys ! i * (?hi - ?lo) = xs ! i - ?lo)"
    if i: "i < length xs" for i
  proof (cases "?hi = ?lo")
    case True
    with i show ?thesis by (simp add: ys)
  next
    case False
    from i have mem: "xs ! i \<in> set xs" by simp
    then have lo: "?lo \<le> xs ! i" and hi: "xs ! i \<le> ?hi" by simp_all
    with False have pos: "0 < ?hi - ?lo" by simp
    have y: "ys ! i = (xs ! i - ?lo) / (?hi - ?lo)"
      using i False by (simp add: ys)
    have "0 \<le> (xs ! i - ?lo) / (?hi - ?lo)"
      using lo pos by simp
    moreover have "(xs ! i - ?lo) / (?hi - ?lo) \<le> 1"
      using hi pos by simp
    moreover have "(xs ! i - ?lo) / (?hi - ?lo) * (?hi - ?lo) = xs ! i - ?lo"
      using pos by simp
    ultimately show ?thesis using False by (simp only: y if_False simp_thms)
  qed
  moreover have "length ys = length xs" by (simp add: ys)
  ultimately show ?thesis unfolding min_max_scaled_def by blast
qed

lemma length_minmax_column: "minmax_column xs = Some ys \<Longrightarrow> length ys = length xs"
  by (auto simp: minmax_column_eq)

lemma MinMaxScaler_columns:
  assumes "X \<noteq> []"
  shows "\<exists>rs fs ms.
           minmax_column (map fst X) = Some rs
         \<and> minmax_column (map (\<lambda>p. fst (snd p)) X) = Some fs
         \<and> minmax_column (map (\<lambda>p. snd (snd p)) X) = Some ms
         \<and> MinMaxScaler_fit_transform X = Inr (zip rs (zip fs ms))"
  using assms by (simp add: MinMaxScaler_fit_transform_def minmax_column_eq)

lemma map_zip3:
  assumes "length rs = n" "length fs = n" "length ms = n"
  shows "map fst (zip rs (zip fs ms)) = rs"
    and "map (\<lambda>p. fst (snd p)) (zip rs (zip fs ms)) = fs"
    and "map (\<lambda>p. snd (snd p)) (zip rs (zip fs ms)) = ms"
proof -
  have l: "length (zip fs ms) = length rs" using assms by simp
  show "map fst (zip rs (zip fs ms)) = rs"
    using l by (simp add: map_fst_zip)
  have "map snd (zip rs (zip fs ms)) = zip fs ms"
    using l by (simp add: map_snd_zip)
  then have "map (fst \<circ> snd) (zip rs (zip fs ms)) = map fst (zip fs ms)"
    and "map (snd \<circ> snd) (zip rs (zip fs ms)) = map snd (zip fs ms)"
    by (simp_all only: map_map [symmetric])
  with assms show "map (\<lambda>p. fst (snd p)) (zip rs (zip fs ms)) = fs"
    and "map (\<lambda>p. snd (snd p)) (zip rs (zip fs ms)) = ms"
    by (simp_all add: comp_def)
qed

text \<open>
  Claim C7. On every table with at least one row the scaler returns normally: no division
  by zero is reached, because a constant column takes the guard branch. It returns one row
  per input row, and each of the three columns of the result is the min-max normalization of
  the same column of the input, independently of the other two: every value lies in
  \<open>[0, 1]\<close>, a constant column is 0 throughout, and on any other column
  \<open>y * (max - min) = x - min\<close> at every position.
\<close>

theorem minmax_scaler_normalizes:
  assumes "X \<noteq> []"
  shows "\<exists>Y. MinMaxScaler_fit_transform X = Inr Y
           \<and> length Y = length X
           \<and> min_max_scaled (map fst X) (map fst Y)
           \<and> min_max_scaled (map (\<lambda>p. fst (snd p)) X) (map (\<lambda>p. fst (snd p)) Y)
           \<and> min_max_scaled (map (\<lambda>p. snd (snd p)) X) (map (\<lambda>p. snd (snd p)) Y)"
proof -
  from MinMaxScaler_columns [OF assms] obtain rs fs ms
    where rs: "minmax_column (map fst X) = Some rs"
      and fs: "minmax_column (map (\<lambda>p. fst (snd p)) X) = Some fs"
      and ms: "minmax_column (map (\<lambda>p. snd (snd p)) X) = Some ms"
      and fit: "MinMaxScaler_fit_transform X = Inr (zip rs (zip fs ms))"
    by blast
  let ?Y = "zip rs (zip fs ms)"
  have len: "length rs = length X" "length fs = length X" "length ms = length X"
    using length_minmax_column [OF rs] length_minmax_column [OF fs]
      length_minmax_column [OF ms] by simp_all
  have cols: "map fst ?Y = rs" "map (\<lambda>p. fst (snd p)) ?Y = fs" "map (\<lambda>p. snd (snd p)) ?Y = ms"
    by (rule map_zip3 [OF len])+
  have "length ?Y = length X"
    using len by simp
  moreover have "min_max_scaled (map fst X) (map fst ?Y)"
    unfolding cols by (rule min_max_scaled_column [OF rs])
  moreover have "min_max_scaled (map (\<lambda>p. fst (snd p)) X) (map (\<lambda>p. fst (snd p)) ?Y)"
    unfolding cols by (rule min_max_scaled_column [OF fs])
  moreover have "min_max_scaled (map (\<lambda>p. snd (snd p)) X) (map (\<lambda>p. snd (snd p)) ?Y)"
    unfolding cols by (rule min_max_scaled_column [OF ms])
  ultimately show ?thesis using fit by blast
qed

lemma rfm_norm_ex_once:
  "rfm_norm (rfm ex_once) = [(3, 1, 490 / 17), (2, 1, 490 / 17), (0, 1, 490 / 17)]"
  by code_simp

lemma scaled_ex_once:
  "MinMaxScaler_fit_transform [(3, 1, 490 / 17), (2, 1, 490 / 17), (0, 1, 490 / 17)]
     = Inr [(1, 0, 0), (2 / 3, 0, 0), (0, 0, 0)]"
  by code_simp

theorem minmax_scaler_normalizes_witness:
  "rfm_norm (rfm ex_once) \<noteq> []
   \<and> MinMaxScaler_fit_transform (rfm_norm (rfm ex_once)) = Inr [(1, 0, 0), (2 / 3, 0, 0), (0, 0, 0)]
   \<and> map (\<lambda>p. fst (snd p)) (rfm_norm (rfm ex_once)) = [1, 1, 1]
   \<and> map (\<lambda>p. snd (snd p)) (rfm_norm (rfm ex_once)) = [490 / 17, 490 / 17, 490 / 17]
   \<and> length [(1, 0, 0), (2 / 3, 0, 0), (0::real, 0::real, 0::real)] = length (rfm_norm (rfm ex_once))"
proof -
  let ?X = "rfm_norm (rfm ex_once)"
  let ?Y = "[(1, 0, 0), (2 / 3, 0, 0), (0::real, 0::real, 0::real)]"
  have ne: "?X \<noteq> []"
    by (simp add: rfm_norm_ex_once)
  have fit: "MinMaxScaler_fit_transform ?X = Inr ?Y"
    by (simp only: rfm_norm_ex_once scaled_ex_once)
  from minmax_scaler_normalizes [OF ne] obtain Y
    where "MinMaxScaler_fit_transform ?X = Inr Y" and "length Y = length ?X"
    by blast
  with fit have "length ?Y = length ?X"
    by simp
  with ne fit show ?thesis
    by (simp add: rfm_norm_ex_once)
qed

section \<open>The segment summary\<close>







subsection \<open>The float64 values on a segment of two users\<close>

















section \<open>Runs that stop inside a library call\<close>

lemma length_rfm: "length (rfm df) = card (user_id ` set (buy_df df))"
proof -
  have "length (rfm df) = length (group_keys (buy_df df))"
    by (simp add: rfm_def rfm_table_rows)
  also have "\<dots> = card (set (group_keys (buy_df df)))"
    by (rule distinct_card [OF distinct_group_keys, symmetric])
  finally show ?thesis by (simp only: set_group_keys)
qed

lemma rfm_empty_iff: "rfm df = [] \<longleftrightarrow> buy_df df = []"
  by (simp add: rfm_def rfm_table_rows group_keys_empty_iff)

lemma scaler_total:
  "X \<noteq> [] \<Longrightarrow> \<exists>Y. MinMaxScaler_fit_transform X = Inr Y"
  using MinMaxScaler_columns by blast

lemma length_scaled:
  assumes "MinMaxScaler_fit_transform X = Inr Y"
  shows "length Y = length X"
proof -
  from assms have ne: "X \<noteq> []"
    by (auto simp: MinMaxScaler_fit_transform_def)
  from MinMaxScaler_columns [OF ne] obtain rs fs ms
    where rs: "minmax_column (map fst X) = Some rs"
      and fs: "minmax_column (map (\<lambda>p. fst (snd p)) X) = Some fs"
      and ms: "minmax_column (map (\<lambda>p. snd (snd p)) X) = Some ms"
      and fit: "MinMaxScaler_fit_transform X = Inr (zip rs (zip fs ms))"
    by blast
  from fit assms have "Y = zip rs (zip fs ms)" by simp
  then show ?thesis
    using length_minmax_column [OF rs] length_minmax_column [OF fs]
      length_minmax_column [OF ms] by simp
qed

text \<open>
  Claim C5, as stated: with no purchase record the run fails fast with an explicit
  no-data condition, renders no chart and produces no partial output, and does not attempt a
  fit on zero rows. On a log without purchases the RFM table is indeed empty, but the page
  already holds the raw table and the histogram figure when the run stops, and it stops
  because the scaler is fitted on zero rows and rejects them.
\<close>

theorem no_purchase_counterexample:
  "buy_df ex_views = []
   \<and> rfm ex_views = []
   \<and> snd (dashboard ex_fit False ex_views) = Inl MinMaxScaler_found_0_samples
   \<and> filter is_chart (fst (dashboard ex_fit False ex_views))
        = [Pyplot ''Recency, Frequency, Monetary histograms'']
   \<and> Dataframe ''df'' \<in> set (fst (dashboard ex_fit False ex_views))
   \<and> fst (dashboard ex_fit False ex_views) \<noteq> []"
  by code_simp

text \<open>
  Claim C5, amended: with no purchase record the RFM table is empty; the run renders the
  sidebar, the title, the raw table and the histogram figure (its only chart), and then
  stops at the scaler's fit, which rejects an array without rows, whatever the segmenter
  would return: the segmenter is never called and nothing after line 83 is rendered.
\<close>

theorem no_purchase_run:
  assumes "\<forall>r \<in> set df. behavior_type r \<noteq> ''buy''"
  shows "rfm df = []
       \<and> dashboard fit dark df = (rendered_before_clustering dark, Inl MinMaxScaler_found_0_samples)
       \<and> filter is_chart (rendered_before_clustering dark)
            = [Pyplot ''Recency, Frequency, Monetary histograms'']"
proof -
  from assms have "buy_df df = []"
    by (simp add: buy_df_def filter_empty_conv)
  then have e: "rfm df = []" by (simp add: rfm_empty_iff)
  then have "dashboard fit dark df = (rendered_before_clustering dark, Inl MinMaxScaler_found_0_samples)"
    by (simp add: dashboard_def rfm_norm_def MinMaxScaler_fit_transform_def)
  moreover have "filter is_chart (rendered_before_clustering dark)
            = [Pyplot ''Recency, Frequency, Monetary histograms'']"
    by (simp add: rendered_before_clustering_def)
  ultimately show ?thesis using e by simp
qed

theorem no_purchase_run_witness:
  "map behavior_type ex_views = [''pv'', ''cart'', ''fav'']
   \<and> rfm ex_views = []
   \<and> dashboard ex_fit True ex_views
        = (rendered_before_clustering True, Inl MinMaxScaler_found_0_samples)"
proof -
  have kinds: "map behavior_type ex_views = [''pv'', ''cart'', ''fav'']"
    by (simp add: ex_views_def)
  have "\<forall>k \<in> set (map behavior_type ex_views). k \<noteq> ''buy''"
    unfolding kinds by simp
  then have "\<forall>r \<in> set ex_views. behavior_type r \<noteq> ''buy''"
    by simp
  from no_purchase_run [OF this, of ex_fit True] kinds show ?thesis
    by simp
qed

lemma few_users_run:
  assumes "card (user_id ` set (buy_df df)) < 4"
  shows "dashboard fit dark df =
           (rendered_before_clustering dark,
            Inl (if buy_df df = [] then MinMaxScaler_found_0_samples
                 else KMeans_n_samples_lt_n_clusters (card (user_id ` set (buy_df df))) 4))"
proof (cases "buy_df df = []")
  case True
  then have "rfm df = []" by (simp add: rfm_empty_iff)
  then show ?thesis
    using True by (simp add: dashboard_def rfm_norm_def MinMaxScaler_fit_transform_def)
next
  case False
  then have ne: "rfm_norm (rfm df) \<noteq> []"
    by (simp add: rfm_norm_def rfm_empty_iff)
  then obtain Y where Y: "MinMaxScaler_fit_transform (rfm_norm (rfm df)) = Inr Y"
    using scaler_total by blast
  have "length Y = card (user_id ` set (buy_df df))"
    using length_scaled [OF Y] by (simp add: rfm_norm_def length_rfm)
  with assms have "KMeans_fit_predict fit Y
      = Inl (KMeans_n_samples_lt_n_clusters (card (user_id ` set (buy_df df))) 4)"
    by (simp add: KMeans_fit_predict_def n_clusters_def)
  with Y False show ?thesis
    by (simp add: dashboard_def Let_def)
qed

text \<open>
  Claim C6. With at least one and fewer than 4 distinct purchasing users the scaler returns
  normally and the segmenter's fit then fails with the insufficient-samples condition
  (fewer samples than the 4 clusters), for any labels it would otherwise return and either
  theme; the run ends with that failure, so no cluster assignment is produced. (The log
  without any purchase is the no-data case of claim C5.)
\<close>

theorem too_few_users_segmenter_fails:
  assumes "0 < card (user_id ` set (buy_df df))"
    and "card (user_id ` set (buy_df df)) < 4"
  shows "\<exists>Y. MinMaxScaler_fit_transform (rfm_norm (rfm df)) = Inr Y
            \<and> KMeans_fit_predict fit Y
                = Inl (KMeans_n_samples_lt_n_clusters (card (user_id ` set (buy_df df))) n_clusters)
            \<and> snd (dashboard fit dark df)
                = Inl (KMeans_n_samples_lt_n_clusters (card (user_id ` set (buy_df df))) n_clusters)"
proof -
  from assms(1) have ne: "buy_df df \<noteq> []"
    by (auto simp: card_gt_0_iff)
  then have "rfm_norm (rfm df) \<noteq> []"
    by (simp add: rfm_norm_def rfm_empty_iff)
  then obtain Y where Y: "MinMaxScaler_fit_transform (rfm_norm (rfm df)) = Inr Y"
    using scaler_total by blast
  have "length Y = card (user_id ` set (buy_df df))"
    using length_scaled [OF Y] by (simp add: rfm_norm_def length_rfm)
  with assms(2) have km: "KMeans_fit_predict fit Y
      = Inl (KMeans_n_samples_lt_n_clusters (card (user_id ` set (buy_df df))) n_clusters)"
    by (simp add: KMeans_fit_predict_def n_clusters_def)
  have "snd (dashboard fit dark df)
      = Inl (KMeans_n_samples_lt_n_clusters (card (user_id ` set (buy_df df))) n_clusters)"
    using few_users_run [OF assms(2), of fit dark] ne by (simp add: n_clusters_def)
  with Y km show ?thesis by blast
qed

theorem too_few_users_segmenter_fails_witness:
  "user_id ` set (buy_df ex_once) = {4, 6, 9}
   \<and> card (user_id ` set (buy_df ex_once)) = 3
   \<and> snd (dashboard ex_fit False ex_once) = Inl (KMeans_n_samples_lt_n_clusters 3 4)"
proof -
  have users: "user_id ` set (buy_df ex_once) = {4, 6, 9}"
    by (auto simp: buy_df_def ex_once_def buy_def)
  have three: "card (user_id ` set (buy_df ex_once)) = 3"
    unfolding users by simp
  then have pos: "0 < card (user_id ` set (buy_df ex_once))"
    and few: "card (user_id ` set (buy_df ex_once)) < 4"
    by simp_all
  from too_few_users_segmenter_fails [OF pos few, of ex_fit False] three users show ?thesis
    by (auto simp: n_clusters_def)
qed

end
